theory Spec2Isabelle
  imports Complex_Main
begin

section \<open>The IDA solver adapter of Cantera (IDA\_Solver.cpp)\<close>

text \<open>
  The adapter class \<open>IDA_Solver\<close> wraps the SUNDIALS IDA(S) engine. The engine and the
  residual provider (\<open>ResidJacEval\<close>) are external: every value they hand back (a status
  flag, a time, a vector) is an argument of the modelled operation, and every call the
  adapter makes on the engine instance is appended to the instance's log. An operation
  of the adapter takes the object's state and returns the outcome together with the
  state it leaves behind; a thrown \<open>CanteraError\<close> is the outcome \<open>Inl\<close>, and the state
  returned with it holds the assignments made before the throw.

  Values of type \<open>double\<close> (\<open>realtype\<close>, \<open>doublereal\<close>) are modelled as \<open>real\<close>: the
  functions below compare, copy and subtract them. Where rounding decides what the
  code does (the start value of the loop of \<open>solve\<close>) or a quotient need not be finite
  (\<open>sensInit\<close>), the model says so at the definition. C \<open>int\<close> status flags are \<open>int\<close>:
  they are compared and passed on, never computed with.
\<close>

subsection \<open>Status codes of the engine\<close>

text \<open>
  Modelled from the spec: the numeric values of the engine's status codes and option
  tags are declared in the engine's header \<open>idas/idas.h\<close>, which is not among the
  sources. The spec fixes the convention (zero is success, the named conditions
  stop-time reached, root found and warning are non-zero and not failures, a negative
  code is an unrecoverable failure); the values below are the engine's.
\<close>

definition IDA_SUCCESS :: int where "IDA_SUCCESS = 0"
definition IDA_TSTOP_RETURN :: int where "IDA_TSTOP_RETURN = 1"
definition IDA_WARNING :: int where "IDA_WARNING = 99"
definition IDA_MEM_FAIL :: int where "IDA_MEM_FAIL = - 21"
definition IDA_ILL_INPUT :: int where "IDA_ILL_INPUT = - 22"

datatype itol = IDA_SS | IDA_SV

datatype itask = IDA_NORMAL | IDA_ONE_STEP

subsection \<open>Errors\<close>

text \<open>
  \<open>CanteraError procedure message\<close>; \<open>CanteraErrorFmt\<close> carries the numbers that fill
  the \<open>{}\<close> of a formatted message. \<open>NullDereference\<close> is no exception of the source:
  it is the outcome of a read through a vector pointer that is null, which the source
  does not guard.
\<close>

datatype error =
    CanteraError string string
  | CanteraErrorFmt string string "int list"
  | NullDereference string

subsection \<open>The residual provider\<close>

text \<open>
  The class \<open>ResidJacEval\<close> is declared outside the sources; the adapter uses the
  members below. An output array is the second component of a result; an array the
  adapter reads through a pointer is a function of the index.
\<close>

record provider =
  evalResidNJ :: "real \<Rightarrow> real \<Rightarrow> real list \<Rightarrow> real list \<Rightarrow> int \<times> real list"
  evalQuadRhs :: "real \<Rightarrow> real list \<Rightarrow> real list \<Rightarrow> int \<times> real list"
  getInitialConditions :: "real \<Rightarrow> real list \<Rightarrow> real list \<Rightarrow> real list \<times> real list"
  nQuadEquations :: nat
  nConstraints :: nat
  constraint :: "nat \<Rightarrow> int"
  m_paramScales :: "nat \<Rightarrow> real"

subsection \<open>The callback bridge\<close>

text \<open>
  \<open>ida_resid\<close> and \<open>ida_quad_rhs\<close>. The step size \<open>delta_t\<close> is what
  \<open>getCurrentStepFromIDA\<close> reads from the engine. The result is the returned flag and
  the output array the provider wrote.
\<close>

definition ida_resid ::
  "provider \<Rightarrow> real \<Rightarrow> real \<Rightarrow> real list \<Rightarrow> real list \<Rightarrow> int \<times> real list" where
  "ida_resid f delta_t t y ydot =
     (let (flag, r) = evalResidNJ f t delta_t y ydot
      in if flag < 0 then (flag, r) else (0, r))"

definition ida_quad_rhs ::
  "provider \<Rightarrow> real \<Rightarrow> real \<Rightarrow> real list \<Rightarrow> real list \<Rightarrow> int \<times> real list" where
  "ida_quad_rhs f delta_t t y ydot =
     (let (flag, rhsQ) = evalQuadRhs f t y ydot
      in if flag < 0 then (flag, rhsQ) else (0, rhsQ))"

text \<open>A provider that reports a fixed status and writes a fixed array.\<close>

definition const_provider :: "int \<Rightarrow> real list \<Rightarrow> provider" where
  "const_provider flag out =
     \<lparr> evalResidNJ = (\<lambda>t h y ydot. (flag, out)),
       evalQuadRhs = (\<lambda>t y ydot. (flag, out)),
       getInitialConditions = (\<lambda>t y ydot. (y, ydot)),
       nQuadEquations = 0,
       nConstraints = 0,
       constraint = (\<lambda>i. 0),
       m_paramScales = (\<lambda>n. 1) \<rparr>"

subsection \<open>The engine instance and the adapter's state\<close>

text \<open>
  The calls the adapter makes on the engine instance, with the arguments it passes by
  value. The instance \<open>m_ida_mem\<close> is modelled as the list of calls it has received
  since \<open>IDACreate\<close>; a null pointer is \<open>None\<close>. The linear-solver registration is
  \<open>IDADense\<close>/\<open>IDABand\<close> in the build for the older engine and the matrix and
  solver registration of the newer one; both are one logged call here.
\<close>

datatype ida_call =
    IDAInit real "real list option" "real list option"
  | IDASVtolerances real "real list option"
  | IDASStolerances real real
  | IDADense nat
  | IDABand nat int int
  | IDADlsSetDenseJacFn
  | IDASetUserData
  | IDASensInit nat
  | IDASensSStolerances real "real option list"
  | IDASetSensParams
  | IDASetMaxOrd int
  | IDASetMaxNumSteps int
  | IDASetInitStep real
  | IDASetStopTime real
  | IDASetMaxErrTestFails int
  | IDASetMaxNonlinIters int
  | IDASetMaxConvFails int
  | IDASetSuppressAlg int
  | IDASetConstraints "real option list option"
  | IDAQuadInit
  | IDASolve real itask
  | IDAGetSensConsistentIC
  | IDAGetSens

text \<open>
  The members of \<open>IDA_Solver\<close>. \<open>m_resid\<close>, \<open>m_neq\<close> and \<open>m_ns\<close> are members of the
  base class \<open>DAE_Solver\<close>, set by its constructor. A vector pointer is \<open>None\<close> when
  null. The vector arrays \<open>m_yS\<close> and \<open>m_ySdot\<close> are functions of the parameter index
  and the equation index. A cell of \<open>m_constraints\<close> is \<open>None\<close> while it holds what
  \<open>N_VNew_Serial\<close> left there (the allocation does not initialise it). \<open>m_id\<close> is
  null from the constructor on and never assigned, and is left out.
\<close>

record IDA_Solver =
  m_resid :: provider
  m_neq :: nat
  m_ns :: nat
  m_ida_mem :: "ida_call list option"
  m_t0 :: real
  m_y :: "real list option"
  m_ydot :: "real list option"
  m_constraints :: "real option list option"
  m_abstol :: "real list option"
  m_type :: int
  m_itol :: itol
  m_reltol :: real
  m_abstols :: real
  m_reltolsens :: real
  m_abstolsens :: real
  m_h0 :: real
  m_maxsteps :: int
  m_maxord :: int
  m_formJac :: int
  m_tstop :: real
  m_told_old :: real
  m_told :: real
  m_tcurrent :: real
  m_deltat :: real
  m_maxErrTestFails :: int
  m_maxNonlinIters :: int
  m_maxNonlinConvFails :: int
  m_setSuppressAlg :: int
  m_mupper :: int
  m_mlower :: int
  m_yS :: "(nat \<Rightarrow> nat \<Rightarrow> real) option"
  m_ySdot :: "(nat \<Rightarrow> nat \<Rightarrow> real) option"
  m_sens_ok :: bool
  m_yQ :: "real list option"
  m_yQdot :: "real list option"

text \<open>The constructor \<open>IDA_Solver::IDA_Solver\<close>; \<open>neq\<close> and \<open>ns\<close> come from the base class.\<close>

definition new_IDA_Solver :: "provider \<Rightarrow> nat \<Rightarrow> nat \<Rightarrow> IDA_Solver" where
  "new_IDA_Solver f neq ns =
     \<lparr> m_resid = f, m_neq = neq, m_ns = ns,
       m_ida_mem = None,
       m_t0 = 0,
       m_y = None, m_ydot = None,
       m_constraints = None,
       m_abstol = None,
       m_type = 0,
       m_itol = IDA_SS,
       m_reltol = 1 / 10 ^ 8,
       m_abstols = 1 / 10 ^ 10,
       m_reltolsens = 1 / 10 ^ 5,
       m_abstolsens = 1 / 10 ^ 7,
       m_h0 = 0,
       m_maxsteps = 20000,
       m_maxord = 0,
       m_formJac = 0,
       m_tstop = 0,
       m_told_old = 0, m_told = 0, m_tcurrent = 0, m_deltat = 0,
       m_maxErrTestFails = - 1,
       m_maxNonlinIters = 0,
       m_maxNonlinConvFails = - 1,
       m_setSuppressAlg = 0,
       m_mupper = 0, m_mlower = 0,
       m_yS = None, m_ySdot = None,
       m_sens_ok = False,
       m_yQ = None, m_yQdot = None \<rparr>"

text \<open>A call on the engine instance: logged by the instance when there is one.\<close>

definition engine_call :: "ida_call \<Rightarrow> IDA_Solver \<Rightarrow> IDA_Solver" where
  "engine_call c s = s\<lparr>m_ida_mem := map_option (\<lambda>calls. calls @ [c]) (m_ida_mem s)\<rparr>"

definition N_VNew_Serial :: "nat \<Rightarrow> real option list" where
  "N_VNew_Serial n = replicate n None"

text \<open>
  A loop \<open>for (i = 0; i < n; i++) v[i] = g(i)\<close> over a vector that stays allocated.
\<close>

definition store_cells :: "(nat \<Rightarrow> 'a) \<Rightarrow> nat \<Rightarrow> 'a list \<Rightarrow> 'a list" where
  "store_cells g n v = fold (\<lambda>i w. w[i := g i]) [0..<n] v"

text \<open>Sequencing of steps that may throw: the first error ends the run.\<close>

fun run_steps ::
  "('s \<Rightarrow> (error + unit) \<times> 's) list \<Rightarrow> 's \<Rightarrow> (error + unit) \<times> 's" where
  "run_steps [] s = (Inr (), s)"
| "run_steps (f # fs) s =
     (case f s of (Inl e, s') \<Rightarrow> (Inl e, s') | (Inr _, s') \<Rightarrow> run_steps fs s')"

definition throw_unless :: "bool \<Rightarrow> error \<Rightarrow> 's \<Rightarrow> (error + unit) \<times> 's" where
  "throw_unless ok e s = (if ok then (Inr (), s) else (Inl e, s))"

subsection \<open>Tolerances\<close>

text \<open>
  \<open>setTolerances(double reltol, double* abstol)\<close>: \<open>ret\<close> is what \<open>IDASVtolerances\<close>
  returns when there is an engine instance. \<open>m_abstol\<close> has \<open>m_neq\<close> cells whenever it
  is allocated.
\<close>

definition setTolerances_vec ::
  "IDA_Solver \<Rightarrow> real \<Rightarrow> (nat \<Rightarrow> real) \<Rightarrow> int \<Rightarrow> (error + unit) \<times> IDA_Solver" where
  "setTolerances_vec s reltol abstol ret =
     (let v0 = (case m_abstol s of None \<Rightarrow> replicate (m_neq s) 0 | Some v \<Rightarrow> v);
          s1 = s\<lparr>m_itol := IDA_SV,
                 m_abstol := Some (store_cells abstol (m_neq s) v0),
                 m_reltol := reltol\<rparr>
      in case m_ida_mem s1 of
           None \<Rightarrow> (Inr (), s1)
         | Some _ \<Rightarrow>
             throw_unless (ret = IDA_SUCCESS)
               (CanteraError ''IDA_Solver::setTolerances'' ''Memory allocation failed.'')
               (engine_call (IDASVtolerances (m_reltol s1) (m_abstol s1)) s1))"

text \<open>\<open>setTolerances(doublereal reltol, doublereal abstol)\<close>.\<close>

definition setTolerances ::
  "IDA_Solver \<Rightarrow> real \<Rightarrow> real \<Rightarrow> int \<Rightarrow> (error + unit) \<times> IDA_Solver" where
  "setTolerances s reltol abstol ret =
     (let s1 = s\<lparr>m_itol := IDA_SS, m_reltol := reltol, m_abstols := abstol\<rparr>
      in case m_ida_mem s1 of
           None \<Rightarrow> (Inr (), s1)
         | Some _ \<Rightarrow>
             throw_unless (ret = IDA_SUCCESS)
               (CanteraError ''IDA_Solver::setTolerances''
                  ''Call to IDASStolerances failed.'')
               (engine_call (IDASStolerances (m_reltol s1) (m_abstols s1)) s1))"

subsection \<open>Constraints\<close>

text \<open>
  Modelled from the spec: \<open>checkFlag\<close> and the tag constants are declared outside the
  sources (the file holds the function only inside a comment, which is followed here).
  The spec names the five tags none, \<open>\<ge> 0\<close>, \<open>> 0\<close>, \<open>\<le> 0\<close>, \<open>< 0\<close>; their values are
  the engine's constraint codes.
\<close>

definition c_NONE :: int where "c_NONE = 0"
definition c_GE_ZERO :: int where "c_GE_ZERO = 1"
definition c_GT_ZERO :: int where "c_GT_ZERO = 2"
definition c_LE_ZERO :: int where "c_LE_ZERO = - 1"
definition c_LT_ZERO :: int where "c_LT_ZERO = - 2"

definition checkFlag :: "int \<Rightarrow> bool" where
  "checkFlag cflag =
     (cflag = c_NONE \<or> cflag = c_GE_ZERO \<or> cflag = c_GT_ZERO \<or>
      cflag = c_LE_ZERO \<or> cflag = c_LT_ZERO)"

text \<open>
  The loop of \<open>setConstraints\<close> over the indices still to visit: each tag is checked and
  then stored, and the throw leaves the cells stored so far. (The loop also prints
  each tag.)
\<close>

fun setConstraints_loop ::
  "(nat \<Rightarrow> int) \<Rightarrow> nat list \<Rightarrow> real option list \<Rightarrow> (error + unit) \<times> real option list" where
  "setConstraints_loop constraintFlags [] v = (Inr (), v)"
| "setConstraints_loop constraintFlags (i # is) v =
     (if \<not> checkFlag (constraintFlags i)
      then (Inl (CanteraError ''IDA_Solver::setConstraints''
                   ''Invalid Constraint vaue detected''), v)
      else setConstraints_loop constraintFlags is
             (v[i := Some (real_of_int (constraintFlags i))]))"

definition setConstraints ::
  "IDA_Solver \<Rightarrow> (nat \<Rightarrow> int) \<Rightarrow> int \<Rightarrow> (error + unit) \<times> IDA_Solver" where
  "setConstraints s constraintFlags ret =
     (let v0 = (case m_constraints s of None \<Rightarrow> N_VNew_Serial (m_neq s) | Some v \<Rightarrow> v);
          (r, v) = setConstraints_loop constraintFlags [0..<m_neq s] v0;
          s1 = s\<lparr>m_constraints := Some v\<rparr>
      in case r of
           Inl e \<Rightarrow> (Inl e, s1)
         | Inr _ \<Rightarrow>
             (case m_ida_mem s1 of
                None \<Rightarrow> (Inr (), s1)
              | Some _ \<Rightarrow>
                  throw_unless (ret = IDA_SUCCESS)
                    (CanteraError ''IDA_Solver::setConstraints''
                       ''IDASetConstraint failed.'')
                    (engine_call (IDASetConstraints (m_constraints s1)) s1)))"

text \<open>
  The constraint vectors the engine instance has been given, oldest first; the last
  one is the vector in force.
\<close>

fun constraint_calls :: "ida_call list \<Rightarrow> real option list option list" where
  "constraint_calls [] = []"
| "constraint_calls (IDASetConstraints v # cs) = v # constraint_calls cs"
| "constraint_calls (c # cs) = constraint_calls cs"

definition engine_constraints :: "IDA_Solver \<Rightarrow> real option list option list" where
  "engine_constraints s =
     (case m_ida_mem s of None \<Rightarrow> [] | Some calls \<Rightarrow> constraint_calls calls)"

text \<open>What the constraint handling reads and writes.\<close>

definition constraint_view ::
  "IDA_Solver \<Rightarrow>
   real option list option \<times> provider \<times> nat \<times> real option list option list option" where
  "constraint_view s =
     (m_constraints s, m_resid s, m_neq s, map_option constraint_calls (m_ida_mem s))"

subsection \<open>Initialisation\<close>

text \<open>
  What the engine returns to the calls of \<open>init\<close>, one field for each call whose
  status the source reads. \<open>ret_matrix_created\<close> is whether the matrix of the linear
  solver could be created in the build for the newer engine; the build for the older
  engine has no such step, which is \<open>True\<close> here.
\<close>

record init_returns =
  ret_IDAInit :: int
  ret_tolerances :: int
  ret_matrix_created :: bool
  ret_linear_solver :: int
  ret_SetJacFn :: int
  ret_IDASetUserData :: int
  ret_IDASensInit :: int
  ret_IDASetSensParams :: int
  ret_IDASetMaxOrd :: int
  ret_IDASetMaxNumSteps :: int
  ret_IDASetInitStep :: int
  ret_IDASetStopTime :: int
  ret_IDASetMaxErrTestFails :: int
  ret_IDASetMaxNonlinIters :: int
  ret_IDASetMaxConvFails :: int
  ret_IDASetSuppressAlg :: int
  ret_IDASetConstraints :: int
  ret_IDAQuadInit :: int

text \<open>
  The first part of \<open>init\<close>: the time bookkeeping, the vectors (destroyed, created
  again and set to zero), the provider's initial conditions, and a fresh engine
  instance. Without quadrature equations \<open>m_yQ\<close> and \<open>m_yQdot\<close> keep their pointers.
\<close>

definition init_vectors :: "real \<Rightarrow> IDA_Solver \<Rightarrow> IDA_Solver" where
  "init_vectors t0 s =
     (let n = m_neq s;
          nq = nQuadEquations (m_resid s);
          (y, ydot) = getInitialConditions (m_resid s) t0 (replicate n 0) (replicate n 0)
      in s\<lparr>m_t0 := t0, m_told := t0, m_told_old := t0, m_tcurrent := t0,
            m_y := Some y, m_ydot := Some ydot,
            m_constraints := Some (replicate n (Some 0)),
            m_yQ := (if nq \<noteq> 0 then Some (replicate nq 0) else m_yQ s),
            m_yQdot := (if nq \<noteq> 0 then Some (replicate nq 0) else m_yQdot s),
            m_ida_mem := Some []\<rparr>)"

definition init_begin :: "real \<Rightarrow> init_returns \<Rightarrow> IDA_Solver \<Rightarrow> (error + unit) \<times> IDA_Solver" where
  "init_begin t0 r s =
     (let s1 = init_vectors t0 s;
          s2 = engine_call (IDAInit (m_t0 s1) (m_y s1) (m_ydot s1)) s1
      in if ret_IDAInit r \<noteq> IDA_SUCCESS
         then (if ret_IDAInit r = IDA_MEM_FAIL
               then (Inl (CanteraError ''IDA_Solver::init'' ''Memory allocation failed.''), s2)
               else if ret_IDAInit r = IDA_ILL_INPUT
               then (Inl (CanteraError ''IDA_Solver::init''
                            ''Illegal value for IDAInit input argument.''), s2)
               else (Inl (CanteraError ''IDA_Solver::init'' ''IDAInit failed.''), s2))
         else (Inr (), s2))"

definition init_tolerances :: "init_returns \<Rightarrow> IDA_Solver \<Rightarrow> (error + unit) \<times> IDA_Solver" where
  "init_tolerances r s =
     throw_unless (ret_tolerances r = IDA_SUCCESS)
       (CanteraError ''IDA_Solver::init'' ''Memory allocation failed.'')
       (engine_call
          (if m_itol s = IDA_SV then IDASVtolerances (m_reltol s) (m_abstol s)
           else IDASStolerances (m_reltol s) (m_abstols s)) s)"

definition init_linear_solver ::
  "init_returns \<Rightarrow> IDA_Solver \<Rightarrow> (error + unit) \<times> IDA_Solver" where
  "init_linear_solver r s =
     (if m_type s = 1 \<or> m_type s = 0 then
        (if \<not> ret_matrix_created r
         then (Inl (CanteraErrorFmt ''IDA_Solver::init''
                      ''Unable to create SUNDenseMatrix of size {0} x {0}''
                      [int (m_neq s)]), s)
         else throw_unless (ret_linear_solver r = 0)
                (CanteraError ''IDA_Solver::init'' ''IDADense failed'')
                (engine_call (IDADense (m_neq s)) s))
      else if m_type s = 2 then
        (if \<not> ret_matrix_created r
         then (Inl (CanteraErrorFmt ''IDA_Solver::init''
                      ''Unable to create SUNBandMatrix of size {} with bandwidths {} and {}''
                      [int (m_neq s), m_mupper s, m_mlower s]), s)
         else (Inr (), engine_call (IDABand (m_neq s) (m_mupper s) (m_mlower s)) s))
      else (Inl (CanteraError ''IDA_Solver::init'' ''unsupported linear solver type''), s))"

text \<open>An option of \<open>init\<close> that is handed to the engine when its guard holds.\<close>

definition set_option ::
  "bool \<Rightarrow> ida_call \<Rightarrow> int \<Rightarrow> string \<Rightarrow> IDA_Solver \<Rightarrow> (error + unit) \<times> IDA_Solver" where
  "set_option wanted c ret msg s =
     (if wanted
      then throw_unless (ret = IDA_SUCCESS) (CanteraError ''IDA_Solver::init'' msg)
             (engine_call c s)
      else (Inr (), s))"

definition init_jacobian :: "init_returns \<Rightarrow> IDA_Solver \<Rightarrow> (error + unit) \<times> IDA_Solver" where
  "init_jacobian r s =
     set_option (m_formJac s = 1) IDADlsSetDenseJacFn (ret_SetJacFn r)
       ''IDADlsSetDenseJacFn failed.'' s"

definition init_user_data :: "init_returns \<Rightarrow> IDA_Solver \<Rightarrow> (error + unit) \<times> IDA_Solver" where
  "init_user_data r s =
     set_option True IDASetUserData (ret_IDASetUserData r) ''IDASetUserData failed.'' s"

text \<open>
  \<open>sensInit\<close>: the status of \<open>IDASensSStolerances\<close> is not read. An absolute
  tolerance handed to the engine is \<open>None\<close> when the scale factor is zero: the quotient
  of doubles is then infinite or not a number.
\<close>

definition sensInit :: "real \<Rightarrow> init_returns \<Rightarrow> IDA_Solver \<Rightarrow> (error + unit) \<times> IDA_Solver" where
  "sensInit t0 r s =
     (let s1 = s\<lparr>m_sens_ok := False,
                 m_yS := Some (\<lambda>n k. 0), m_ySdot := Some (\<lambda>n k. 0)\<rparr>;
          s2 = engine_call (IDASensInit (m_ns s1)) s1
      in if ret_IDASensInit r \<noteq> IDA_SUCCESS
         then (Inl (CanteraError ''IDA_Solver::sensInit'' ''Error in IDASensInit''), s2)
         else (Inr (),
               engine_call
                 (IDASensSStolerances (m_reltolsens s2)
                    (map (\<lambda>n. if m_paramScales (m_resid s2) n = 0 then None
                               else Some (m_abstolsens s2 / m_paramScales (m_resid s2) n))
                       [0..<m_ns s2]))
                 s2))"

definition init_sensitivity ::
  "real \<Rightarrow> init_returns \<Rightarrow> IDA_Solver \<Rightarrow> (error + unit) \<times> IDA_Solver" where
  "init_sensitivity t0 r s =
     (if m_ns s > 0
      then run_steps
             [sensInit t0 r,
              set_option True IDASetSensParams (ret_IDASetSensParams r)
                ''IDASetSensParams failed.''] s
      else (Inr (), s))"

definition init_options :: "init_returns \<Rightarrow> IDA_Solver \<Rightarrow> (error + unit) \<times> IDA_Solver" where
  "init_options r s =
     run_steps
       [set_option (m_maxord s > 0) (IDASetMaxOrd (m_maxord s)) (ret_IDASetMaxOrd r)
          ''IDASetMaxOrd failed.'',
        set_option (m_maxsteps s > 0) (IDASetMaxNumSteps (m_maxsteps s))
          (ret_IDASetMaxNumSteps r) ''IDASetMaxNumSteps failed.'',
        set_option (m_h0 s > 0) (IDASetInitStep (m_h0 s)) (ret_IDASetInitStep r)
          ''IDASetInitStep failed.'',
        set_option (m_tstop s > 0) (IDASetStopTime (m_tstop s)) (ret_IDASetStopTime r)
          ''IDASetStopTime failed.'',
        set_option (m_maxErrTestFails s \<ge> 0) (IDASetMaxErrTestFails (m_maxErrTestFails s))
          (ret_IDASetMaxErrTestFails r) ''IDASetMaxErrTestFails failed.'',
        set_option (m_maxNonlinIters s > 0) (IDASetMaxNonlinIters (m_maxNonlinIters s))
          (ret_IDASetMaxNonlinIters r) ''IDASetmaxNonlinIters failed.'',
        set_option (m_maxNonlinConvFails s \<ge> 0) (IDASetMaxConvFails (m_maxNonlinConvFails s))
          (ret_IDASetMaxConvFails r) ''IDASetMaxConvFails failed.'',
        set_option (m_setSuppressAlg s \<noteq> 0) (IDASetSuppressAlg (m_setSuppressAlg s))
          (ret_IDASetSuppressAlg r) ''IDASetSuppressAlg failed.''] s"

text \<open>
  The constraints of \<open>init\<close>: when the provider reports constraints, every cell of
  \<open>m_constraints\<close> is set from the provider and the vector is handed to the engine.
\<close>

definition init_constraints :: "init_returns \<Rightarrow> IDA_Solver \<Rightarrow> (error + unit) \<times> IDA_Solver" where
  "init_constraints r s =
     (if nConstraints (m_resid s) \<noteq> 0
      then (let s1 = s\<lparr>m_constraints :=
                         map_option
                           (store_cells (\<lambda>i. Some (real_of_int (constraint (m_resid s) i)))
                              (m_neq s))
                           (m_constraints s)\<rparr>
            in throw_unless (ret_IDASetConstraints r = IDA_SUCCESS)
                 (CanteraError ''IDA_Solver::init'' ''IDASetConstraints failed'')
                 (engine_call (IDASetConstraints (m_constraints s1)) s1))
      else (Inr (), s))"

definition init_quadrature :: "init_returns \<Rightarrow> IDA_Solver \<Rightarrow> (error + unit) \<times> IDA_Solver" where
  "init_quadrature r s =
     set_option (nQuadEquations (m_resid s) \<noteq> 0) IDAQuadInit (ret_IDAQuadInit r)
       ''IDAQuadInit failed'' s"

definition init :: "IDA_Solver \<Rightarrow> real \<Rightarrow> init_returns \<Rightarrow> (error + unit) \<times> IDA_Solver" where
  "init s t0 r =
     run_steps
       [init_begin t0 r, init_tolerances r, init_linear_solver r, init_jacobian r,
        init_user_data r, init_sensitivity t0 r, init_options r,
        init_constraints r, init_quadrature r] s"

text \<open>An engine that accepts every call of \<open>init\<close>.\<close>

definition all_accepted :: init_returns where
  "all_accepted =
     \<lparr> ret_IDAInit = 0, ret_tolerances = 0, ret_matrix_created = True,
       ret_linear_solver = 0, ret_SetJacFn = 0, ret_IDASetUserData = 0,
       ret_IDASensInit = 0, ret_IDASetSensParams = 0, ret_IDASetMaxOrd = 0,
       ret_IDASetMaxNumSteps = 0, ret_IDASetInitStep = 0, ret_IDASetStopTime = 0,
       ret_IDASetMaxErrTestFails = 0, ret_IDASetMaxNonlinIters = 0,
       ret_IDASetMaxConvFails = 0, ret_IDASetSuppressAlg = 0,
       ret_IDASetConstraints = 0, ret_IDAQuadInit = 0 \<rparr>"

subsection \<open>Stepping\<close>

text \<open>
  What one call of \<open>IDASolve\<close> hands back: its status, the time reached and the
  contents it leaves in the solution vectors.
\<close>

record solve_return =
  sol_flag :: int
  sol_t :: real
  sol_y :: "real list"
  sol_ydot :: "real list"

definition IDASolve_call :: "real \<Rightarrow> itask \<Rightarrow> solve_return \<Rightarrow> IDA_Solver \<Rightarrow> IDA_Solver" where
  "IDASolve_call tout task r s =
     (engine_call (IDASolve tout task) s)
       \<lparr>m_y := map_option (\<lambda>_. sol_y r) (m_y s),
        m_ydot := map_option (\<lambda>_. sol_ydot r) (m_ydot s)\<rparr>"

text \<open>\<open>step\<close>: \<open>r\<close> is what the one call of \<open>IDASolve\<close> hands back.\<close>

definition step :: "IDA_Solver \<Rightarrow> real \<Rightarrow> solve_return \<Rightarrow> (error + real) \<times> IDA_Solver" where
  "step s tout r =
     (if tout \<le> m_tcurrent s
      then (Inl (CanteraError ''IDA_Solver::step'' ''tout <= tcurrent''), s)
      else
        (let s1 = s\<lparr>m_told_old := m_told s, m_told := m_tcurrent s\<rparr>;
             s2 = IDASolve_call tout IDA_ONE_STEP r s1
         in if sol_flag r < 0
            then (Inl (CanteraError ''IDA_Solver::step'' ''IDA error encountered.''), s2)
            else if sol_flag r = IDA_WARNING
            then (Inl (CanteraError ''IDA_Solver::step'' ''IDA Warning encountered.''), s2)
            else (Inr (sol_t r),
                  s2\<lparr>m_tcurrent := sol_t r,
                     m_deltat := sol_t r - m_told s2,
                     m_sens_ok := False\<rparr>)))"

text \<open>
  \<open>solve\<close> writes lines to standard output; the third component of its result holds
  them, oldest first. The part after the loop: the last status is checked, the
  sensitivity cache is marked stale and the status is returned.
\<close>

definition solve_exit ::
  "IDA_Solver \<Rightarrow> int \<Rightarrow> string list \<Rightarrow> (error + int) \<times> IDA_Solver \<times> string list" where
  "solve_exit s flag out =
     (if flag \<noteq> IDA_SUCCESS \<and> flag \<noteq> IDA_TSTOP_RETURN
      then (Inl (CanteraError ''IDA_Solver::solve'' ''IDA error encountered.''), s, out)
      else (Inr flag, s\<lparr>m_sens_ok := False\<rparr>, out))"

text \<open>
  The loop \<open>while (tretn < tout)\<close>, with the values of the locals \<open>tretn\<close> and \<open>flag\<close>
  and the lines written so far. The engine decides how often the loop runs, so the
  list holds what the successive calls of \<open>IDASolve\<close> hand back, and the result is
  \<open>None\<close> when the loop asks for a call beyond the list.
\<close>

fun solve_loop ::
  "IDA_Solver \<Rightarrow> real \<Rightarrow> real \<Rightarrow> int \<Rightarrow> string list \<Rightarrow> solve_return list \<Rightarrow>
   ((error + int) \<times> IDA_Solver \<times> string list) option" where
  "solve_loop s tout tretn flag out rs =
     (if tretn < tout then
        (if tout \<le> m_tcurrent s
         then Some (solve_exit s flag (out @ [''Simulation end time reached'']))
         else
           (case rs of
              [] \<Rightarrow> None
            | r # rs' \<Rightarrow>
                (let s1 = s\<lparr>m_told_old := m_told s, m_told := m_tcurrent s\<rparr>;
                     s2 = IDASolve_call tout IDA_NORMAL r s1
                 in if sol_flag r < 0
                    then Some (Inl (CanteraError ''IDA_Solver::solve''
                                      ''IDA error encountered.''), s2, out)
                    else solve_loop
                           (s2\<lparr>m_tcurrent := sol_t r, m_deltat := sol_t r - m_told s2\<rparr>)
                           tout (sol_t r) (sol_flag r)
                           (if sol_flag r = IDA_WARNING
                            then out @ [''DAE Solver WARNING!''] else out)
                           rs')))
      else Some (solve_exit s flag out))"

declare solve_loop.simps [simp del]

text \<open>
  \<open>stop_ret\<close> is what \<open>IDASetStopTime\<close> returns. The local \<open>tretn\<close> starts at the
  double \<open>tout - 1000\<close>. That double is below \<open>tout\<close>, except that it is \<open>tout\<close> itself
  when \<open>tout\<close> is too large to resolve a difference of 1000 (from about \<open>10^19\<close> on);
  \<open>absorbed\<close> says that this is the case, and then the loop is not entered.
\<close>

definition solve ::
  "IDA_Solver \<Rightarrow> real \<Rightarrow> bool \<Rightarrow> int \<Rightarrow> solve_return list \<Rightarrow>
   ((error + int) \<times> IDA_Solver \<times> string list) option" where
  "solve s tout absorbed stop_ret rs =
     (let tretn = (if absorbed then tout else tout - 1000);
          s1 = engine_call (IDASetStopTime tout) s
      in if stop_ret \<noteq> IDA_SUCCESS
         then Some (Inl (CanteraError ''IDA_Solver::solve'' ''IDA error encountered.''), s1, [])
         else solve_loop s1 tout tretn stop_ret [] rs)"

text \<open>The number of advance calls the engine instance has received.\<close>

definition advance_calls :: "IDA_Solver \<Rightarrow> nat" where
  "advance_calls s =
     (case m_ida_mem s of
        None \<Rightarrow> 0
      | Some calls \<Rightarrow> length (filter (\<lambda>c. case c of IDASolve _ _ \<Rightarrow> True | _ \<Rightarrow> False) calls))"

subsection \<open>Sensitivities\<close>

text \<open>
  What a sensitivity fetch hands back: the status, the time that \<open>IDAGetSens\<close> writes
  through its pointer argument, and the contents it leaves in the arrays.
\<close>

record sens_return =
  sens_flag :: int
  sens_tret :: real
  sens_yS :: "nat \<Rightarrow> nat \<Rightarrow> real"
  sens_ySdot :: "nat \<Rightarrow> nat \<Rightarrow> real"

text \<open>
  The fetch of \<open>sensitivity\<close>. The condition of the inner \<open>if\<close> is the assignment
  \<open>m_tcurrent = m_t0\<close>: it stores the start time in \<open>m_tcurrent\<close>, and it holds when the
  stored value is not zero. \<open>IDAGetSens\<close> is given the address of \<open>m_tcurrent\<close>.
\<close>

definition sensitivity_fetch ::
  "IDA_Solver \<Rightarrow> sens_return \<Rightarrow> (error + unit) \<times> IDA_Solver" where
  "sensitivity_fetch s r =
     (if \<not> m_sens_ok s \<and> m_ns s \<noteq> 0 then
        (let s1 = s\<lparr>m_tcurrent := m_t0 s\<rparr>
         in if m_tcurrent s1 \<noteq> 0 then
              (let s2 = (engine_call IDAGetSensConsistentIC s1)
                          \<lparr>m_yS := map_option (\<lambda>_. sens_yS r) (m_yS s1),
                           m_ySdot := map_option (\<lambda>_. sens_ySdot r) (m_ySdot s1)\<rparr>
               in if sens_flag r \<noteq> IDA_SUCCESS
                  then (Inl (CanteraErrorFmt ''IDA_Solver::sensitivity''
                               ''IDAGetSensConsistentIC failed: error = {}'' [sens_flag r]), s2)
                  else (Inr (), s2\<lparr>m_sens_ok := True\<rparr>))
            else
              (let s2 = (engine_call IDAGetSens s1)
                          \<lparr>m_tcurrent := sens_tret r,
                           m_yS := map_option (\<lambda>_. sens_yS r) (m_yS s1)\<rparr>
               in if sens_flag r \<noteq> IDA_SUCCESS
                  then (Inl (CanteraErrorFmt ''IDA_Solver::sensitivity''
                               ''IDAGetSens failed: error = {}'' [sens_flag r]), s2)
                  else (Inr (), s2\<lparr>m_sens_ok := True\<rparr>)))
      else (Inr (), s))"

definition sensitivity ::
  "IDA_Solver \<Rightarrow> nat \<Rightarrow> nat \<Rightarrow> sens_return \<Rightarrow> (error + real) \<times> IDA_Solver" where
  "sensitivity s k p r =
     (case sensitivity_fetch s r of
        (Inl e, s') \<Rightarrow> (Inl e, s')
      | (Inr _, s') \<Rightarrow>
          if k \<ge> m_neq s'
          then (Inl (CanteraErrorFmt ''IDA_Solver::sensitivity''
                       ''sensitivity: equation index out of range ({})'' [int k]), s')
          else if p \<ge> m_ns s'
          then (Inl (CanteraErrorFmt ''IDA_Solver::sensitivity''
                       ''sensitivity: parameter index out of range ({})'' [int p]), s')
          else (case m_yS s' of
                  None \<Rightarrow> (Inl (NullDereference ''m_yS''), s')
                | Some yS \<Rightarrow> (Inr (yS p k), s')))"

text \<open>The fetch calls the engine instance has received, oldest first.\<close>

definition fetch_calls :: "IDA_Solver \<Rightarrow> ida_call list" where
  "fetch_calls s =
     (case m_ida_mem s of
        None \<Rightarrow> []
      | Some calls \<Rightarrow> filter (\<lambda>c. c = IDAGetSensConsistentIC \<or> c = IDAGetSens) calls)"

subsection \<open>Concrete inputs\<close>

text \<open>An argument array with the given cells.\<close>

definition array_of :: "int list \<Rightarrow> nat \<Rightarrow> int" where
  "array_of xs i = (if i < length xs then xs ! i else 0)"

text \<open>
  A freshly constructed solver for two equations and one sensitivity parameter whose
  provider reports no constraints; the same solver after \<open>init\<close> at start time 0 and at
  start time 1, with an engine that accepts every call; the latter after one step that
  reached time 2; and results of engine calls.
\<close>

definition fresh_solver :: IDA_Solver where
  "fresh_solver = new_IDA_Solver (const_provider 0 []) 2 1"

text \<open>A fresh solver whose provider reports the constraint tags \<open>[2, 0]\<close>.\<close>

definition constrained_solver :: IDA_Solver where
  "constrained_solver =
     new_IDA_Solver ((const_provider 0 [])\<lparr>nConstraints := 1, constraint := array_of [2, 0]\<rparr>) 2 1"

definition solver_at_0 :: IDA_Solver where
  "solver_at_0 = snd (init fresh_solver 0 all_accepted)"

definition solver_at_1 :: IDA_Solver where
  "solver_at_1 = snd (init fresh_solver 1 all_accepted)"

definition advance_to :: "int \<Rightarrow> real \<Rightarrow> solve_return" where
  "advance_to flag t = \<lparr> sol_flag = flag, sol_t = t, sol_y = [0, 0], sol_ydot = [0, 0] \<rparr>"

definition solver_stepped :: IDA_Solver where
  "solver_stepped = snd (step solver_at_1 2 (advance_to 0 2))"

definition negative_tolerances :: "nat \<Rightarrow> real" where
  "negative_tolerances i = - 1"

definition zero_tolerances :: "nat \<Rightarrow> real" where
  "zero_tolerances i = 0"

text \<open>The initialised solver after per-component tolerances have been set once.\<close>

definition solver_with_abstol :: IDA_Solver where
  "solver_with_abstol = snd (setTolerances_vec solver_at_0 1 negative_tolerances 0)"

definition zero_sens :: "nat \<Rightarrow> nat \<Rightarrow> real" where
  "zero_sens n k = 0"

definition fetched :: "int \<Rightarrow> real \<Rightarrow> sens_return" where
  "fetched flag t =
     \<lparr> sens_flag = flag, sens_tret = t, sens_yS = zero_sens, sens_ySdot = zero_sens \<rparr>"

section \<open>Theorems\<close>


subsection \<open>C1: the return value of the residual and quadrature callbacks\<close>

lemma ida_resid_flag:
  "fst (ida_resid f h t y ydot) =
     (if fst (evalResidNJ f t h y ydot) < 0 then fst (evalResidNJ f t h y ydot) else 0)"
  by (simp add: ida_resid_def split: prod.splits)

lemma ida_quad_rhs_flag:
  "fst (ida_quad_rhs f h t y ydot) =
     (if fst (evalQuadRhs f t y ydot) < 0 then fst (evalQuadRhs f t y ydot) else 0)"
  by (simp add: ida_quad_rhs_def split: prod.splits)

text \<open>
  C1 (as stated): the callback returns 0 when the provider reports success, a positive
  value when the provider reports a recoverable failure (a positive status), and a
  negative value when the provider reports an unrecoverable failure (a negative
  status). At the provider status 1 both callbacks return 0, which is not positive.
\<close>

theorem C1_counterexample:
  "fst (ida_resid (const_provider 1 [0]) 0 0 [0] [0]) = 0
   \<and> fst (ida_quad_rhs (const_provider 1 [0]) 0 0 [0] [0]) = 0"
  by (simp add: ida_resid_def ida_quad_rhs_def const_provider_def)

text \<open>
  C1 (amended): a negative provider status is returned unchanged, and every other
  provider status, zero or positive, is returned as 0; neither callback ever returns a
  positive value.
\<close>

theorem C1_callback_return:
  "(fst (evalResidNJ f t h y ydot) < 0 \<longrightarrow>
      fst (ida_resid f h t y ydot) = fst (evalResidNJ f t h y ydot))
   \<and> (0 \<le> fst (evalResidNJ f t h y ydot) \<longrightarrow> fst (ida_resid f h t y ydot) = 0)
   \<and> (fst (evalQuadRhs f t y ydot) < 0 \<longrightarrow>
      fst (ida_quad_rhs f h t y ydot) = fst (evalQuadRhs f t y ydot))
   \<and> (0 \<le> fst (evalQuadRhs f t y ydot) \<longrightarrow> fst (ida_quad_rhs f h t y ydot) = 0)
   \<and> fst (ida_resid f h t y ydot) \<le> 0
   \<and> fst (ida_quad_rhs f h t y ydot) \<le> 0"
  by (simp add: ida_resid_flag ida_quad_rhs_flag)

theorem C1_callback_return_witness:
  "fst (ida_resid (const_provider (- 3) [0]) 0 0 [0] [0]) = - 3
   \<and> fst (ida_quad_rhs (const_provider (- 3) [0]) 0 0 [0] [0]) = - 3
   \<and> fst (ida_resid (const_provider 0 [0]) 0 0 [0] [0]) = 0"
  using C1_callback_return [of "const_provider (- 3) [0]" 0 0 "[0]" "[0]"]
        C1_callback_return [of "const_provider 0 [0]" 0 0 "[0]" "[0]"]
  by (simp add: const_provider_def)

subsection \<open>C4: the whole-vector constraint setter on an invalid tag\<close>

lemma store_cells_prefix:
  "n \<le> length v \<Longrightarrow> store_cells g n v = map g [0..<n] @ drop n v"
proof (induction n)
  case 0
  then show ?case by (simp add: store_cells_def)
next
  case (Suc n)
  then have IH: "store_cells g n v = map g [0..<n] @ drop n v" and n: "n < length v"
    by simp_all
  have "store_cells g (Suc n) v = (store_cells g n v)[n := g n]"
    by (simp add: store_cells_def)
  also have "\<dots> = map g [0..<n] @ (drop n v)[0 := g n]"
    by (simp add: IH list_update_append)
  also have "drop n v = v ! n # drop (Suc n) v"
    using n by (simp add: Cons_nth_drop_Suc)
  finally show ?case by simp
qed

lemma store_cells_all: "length v = n \<Longrightarrow> store_cells g n v = map g [0..<n]"
  by (simp add: store_cells_prefix)

lemma setConstraints_loop_stops:
  "\<forall>j\<in>set js. checkFlag (cf j) \<Longrightarrow> \<not> checkFlag (cf i) \<Longrightarrow>
   setConstraints_loop cf (js @ i # ks) v =
     (Inl (CanteraError ''IDA_Solver::setConstraints'' ''Invalid Constraint vaue detected''),
      fold (\<lambda>j w. w[j := Some (real_of_int (cf j))]) js v)"
  by (induction js arbitrary: v) simp_all

lemma setConstraints_loop_first_invalid:
  assumes "i < n" "\<not> checkFlag (cf i)" "\<forall>j<i. checkFlag (cf j)"
  shows "setConstraints_loop cf [0..<n] v =
     (Inl (CanteraError ''IDA_Solver::setConstraints'' ''Invalid Constraint vaue detected''),
      store_cells (\<lambda>j. Some (real_of_int (cf j))) i v)"
proof -
  have "[0..<n] = [0..<i] @ i # [Suc i..<n]"
    using assms(1) by (metis le0 less_imp_le_nat upt_add_eq_append upt_conv_Cons le_add_diff_inverse)
  moreover have "\<forall>j\<in>set [0..<i]. checkFlag (cf j)"
    using assms(3) by simp
  ultimately show ?thesis
    using setConstraints_loop_stops [of "[0..<i]" cf i "[Suc i..<n]" v] assms(2)
    by (simp add: store_cells_def)
qed

lemma setConstraints_loop_all_valid:
  "\<forall>j\<in>set js. checkFlag (cf j) \<Longrightarrow>
   setConstraints_loop cf js v = (Inr (), fold (\<lambda>j w. w[j := Some (real_of_int (cf j))]) js v)"
  by (induction js arbitrary: v) simp_all

lemma first_invalid:
  fixes n :: nat
  assumes "\<exists>i<n. \<not> checkFlag (cf i)"
  shows "\<exists>i<n. \<not> checkFlag (cf i) \<and> (\<forall>j<i. checkFlag (cf j))"
proof -
  from assms have "\<exists>i. i < n \<and> \<not> checkFlag (cf i)" by blast
  then obtain i where i: "i < n \<and> \<not> checkFlag (cf i)"
    and least: "\<forall>j<i. \<not> (j < n \<and> \<not> checkFlag (cf j))"
    using exists_least_iff [of "\<lambda>i. i < n \<and> \<not> checkFlag (cf i)"] by blast
  from i least have "\<forall>j<i. checkFlag (cf j)"
    by (meson less_trans)
  with i show ?thesis by blast
qed

lemma setConstraints_first_invalid:
  assumes "i < m_neq s" "\<not> checkFlag (cf i)" "\<forall>j<i. checkFlag (cf j)"
  shows "setConstraints s cf ret =
           (Inl (CanteraError ''IDA_Solver::setConstraints''
                   ''Invalid Constraint vaue detected''),
            s\<lparr>m_constraints :=
                Some (store_cells (\<lambda>j. Some (real_of_int (cf j))) i
                        (case m_constraints s of
                           None \<Rightarrow> N_VNew_Serial (m_neq s) | Some v \<Rightarrow> v))\<rparr>)"
  using setConstraints_loop_first_invalid [OF assms]
  by (simp add: setConstraints_def)

text \<open>
  C4 (as stated): when the array holds an invalid tag, the setter raises a
  configuration error and leaves the stored constraint vector and the constraints
  registered with the engine as they were. After \<open>init\<close> the stored vector is
  \<open>[0, 0]\<close>; the call with the tags \<open>[1, 99]\<close> raises the error and leaves \<open>[1, 0]\<close>
  stored: the valid tag in front of the invalid one has been applied.
\<close>

theorem C4_counterexample:
  "m_constraints solver_at_0 = Some [Some 0, Some 0]
   \<and> \<not> checkFlag (array_of [1, 99] 1)
   \<and> fst (setConstraints solver_at_0 (array_of [1, 99]) 0) =
       Inl (CanteraError ''IDA_Solver::setConstraints'' ''Invalid Constraint vaue detected'')
   \<and> m_constraints (snd (setConstraints solver_at_0 (array_of [1, 99]) 0))
       = Some [Some 1, Some 0]"
  by code_simp

text \<open>
  C4 (amended): when the array holds an invalid tag among its first \<open>m_neq\<close> cells,
  the setter raises the configuration error and makes no call on the engine, so the
  constraints registered with the engine are as before; in the stored vector the
  cells in front of the first invalid tag hold the new tags and the cells from there
  on hold what they held before (the vector is allocated first when there was none),
  and no other member changes.
\<close>

theorem C4_setConstraints_invalid:
  assumes "\<exists>i<m_neq s. \<not> checkFlag (cf i)"
  shows "fst (setConstraints s cf ret) =
           Inl (CanteraError ''IDA_Solver::setConstraints'' ''Invalid Constraint vaue detected'')
         \<and> m_ida_mem (snd (setConstraints s cf ret)) = m_ida_mem s
         \<and> engine_constraints (snd (setConstraints s cf ret)) = engine_constraints s
         \<and> (\<exists>i<m_neq s. \<not> checkFlag (cf i) \<and> (\<forall>j<i. checkFlag (cf j)) \<and>
              snd (setConstraints s cf ret) =
                s\<lparr>m_constraints :=
                    Some (store_cells (\<lambda>j. Some (real_of_int (cf j))) i
                            (case m_constraints s of
                               None \<Rightarrow> N_VNew_Serial (m_neq s) | Some v \<Rightarrow> v))\<rparr>)"
proof -
  from first_invalid [OF assms] obtain i where
    i: "i < m_neq s" "\<not> checkFlag (cf i)" "\<forall>j<i. checkFlag (cf j)" by blast
  note eq = setConstraints_first_invalid [OF i, of ret]
  have "fst (setConstraints s cf ret) =
          Inl (CanteraError ''IDA_Solver::setConstraints'' ''Invalid Constraint vaue detected'')"
    by (simp add: eq)
  moreover have "m_ida_mem (snd (setConstraints s cf ret)) = m_ida_mem s"
    by (simp add: eq)
  moreover have "engine_constraints (snd (setConstraints s cf ret)) = engine_constraints s"
    by (simp add: eq engine_constraints_def)
  ultimately show ?thesis using i eq by auto
qed

theorem C4_setConstraints_invalid_witness:
  "fst (setConstraints solver_at_0 (array_of [1, 99]) 0) =
     Inl (CanteraError ''IDA_Solver::setConstraints'' ''Invalid Constraint vaue detected'')
   \<and> engine_constraints (snd (setConstraints solver_at_0 (array_of [1, 99]) 0))
       = engine_constraints solver_at_0"
proof -
  have "1 < m_neq solver_at_0 \<and> \<not> checkFlag (array_of [1, 99] 1)" by code_simp
  then have h: "\<exists>i<m_neq solver_at_0. \<not> checkFlag (array_of [1, 99] i)" by blast
  from C4_setConstraints_invalid [OF h, of 0] show ?thesis by blast
qed

subsection \<open>C3: constraints installed before \<open>init\<close>\<close>

lemma constraint_calls_append:
  "constraint_calls (xs @ ys) = constraint_calls xs @ constraint_calls ys"
  by (induction xs rule: constraint_calls.induct) simp_all

lemma view_engine_call:
  "constraint_calls [c] = [] \<Longrightarrow> constraint_view (engine_call c s) = constraint_view s"
  by (cases "m_ida_mem s")
     (simp_all add: constraint_view_def engine_call_def constraint_calls_append)

lemma snd_throw_unless: "snd (throw_unless ok e s) = s"
  by (simp add: throw_unless_def)

lemma view_set_option:
  "constraint_calls [c] = [] \<Longrightarrow>
   constraint_view (snd (set_option wanted c ret msg s)) = constraint_view s"
  by (simp add: set_option_def snd_throw_unless view_engine_call)

lemma run_steps_preserves:
  assumes "\<And>f s. f \<in> set fs \<Longrightarrow> g (snd (f s)) = g s"
  shows "g (snd (run_steps fs s)) = g s"
  using assms
proof (induction fs arbitrary: s)
  case Nil
  then show ?case by simp
next
  case (Cons f fs)
  have f: "g (snd (f s)) = g s" using Cons.prems by simp
  have rest: "\<And>s'. g (snd (run_steps fs s')) = g s'"
    using Cons.IH Cons.prems by simp
  show ?case
  proof (cases "f s")
    case (Pair res s1)
    with f have s1: "g s1 = g s" by simp
    show ?thesis
    proof (cases res)
      case (Inl e)
      with Pair s1 show ?thesis by simp
    next
      case (Inr u)
      with Pair s1 rest [of s1] show ?thesis by simp
    qed
  qed
qed

lemma run_steps_Cons_ok:
  assumes "run_steps (f # fs) s = (Inr u, s')"
  obtains s1 where "f s = (Inr (), s1)" and "run_steps fs s1 = (Inr u, s')"
  using assms by (auto split: prod.splits sum.splits)

lemma view_init_tolerances:
  "constraint_view (snd (init_tolerances r s)) = constraint_view s"
  by (simp add: init_tolerances_def snd_throw_unless view_engine_call)

lemma view_init_linear_solver:
  "constraint_view (snd (init_linear_solver r s)) = constraint_view s"
  by (simp add: init_linear_solver_def snd_throw_unless view_engine_call)

lemma view_init_jacobian:
  "constraint_view (snd (init_jacobian r s)) = constraint_view s"
  by (simp add: init_jacobian_def view_set_option)

lemma view_init_user_data:
  "constraint_view (snd (init_user_data r s)) = constraint_view s"
  by (simp add: init_user_data_def view_set_option)

lemma view_sensInit:
  "constraint_view (snd (sensInit t0 r s)) = constraint_view s"
proof -
  have "constraint_view (s\<lparr>m_sens_ok := False, m_yS := a, m_ySdot := b\<rparr>) = constraint_view s"
    for a b
    by (simp add: constraint_view_def)
  then show ?thesis
    by (simp add: sensInit_def Let_def view_engine_call)
qed

lemma view_init_sensitivity:
  "constraint_view (snd (init_sensitivity t0 r s)) = constraint_view s"
proof (cases "m_ns s > 0")
  case True
  have "constraint_view (snd (run_steps
          [sensInit t0 r,
           set_option True IDASetSensParams (ret_IDASetSensParams r)
             ''IDASetSensParams failed.''] s)) = constraint_view s"
    by (rule run_steps_preserves) (auto simp: view_sensInit view_set_option)
  with True show ?thesis by (simp add: init_sensitivity_def)
next
  case False
  then show ?thesis by (simp add: init_sensitivity_def)
qed

lemma view_init_options:
  "constraint_view (snd (init_options r s)) = constraint_view s"
  unfolding init_options_def
  by (rule run_steps_preserves) (auto simp: view_set_option)

lemma view_init_quadrature:
  "constraint_view (snd (init_quadrature r s)) = constraint_view s"
  by (simp add: init_quadrature_def view_set_option)

lemma view_init_begin:
  "constraint_view (snd (init_begin t0 r s)) =
     (Some (replicate (m_neq s) (Some 0)), m_resid s, m_neq s, Some [])"
proof -
  have "constraint_view (init_vectors t0 s) =
          (Some (replicate (m_neq s) (Some 0)), m_resid s, m_neq s, Some [])"
    by (simp add: init_vectors_def constraint_view_def Let_def split: prod.splits)
  then show ?thesis
    by (simp add: init_begin_def Let_def view_engine_call)
qed

lemma view_init_constraints:
  assumes "constraint_view s = (Some (replicate n (Some 0)), f, n, Some [])"
    and "init_constraints r s = (Inr u, s')"
  shows "constraint_view s' =
           (if nConstraints f \<noteq> 0
            then (Some (map (\<lambda>i. Some (real_of_int (constraint f i))) [0..<n]), f, n,
                  Some [Some (map (\<lambda>i. Some (real_of_int (constraint f i))) [0..<n])])
            else (Some (replicate n (Some 0)), f, n, Some []))"
proof -
  from assms(1) have s: "m_constraints s = Some (replicate n (Some 0))" "m_resid s = f"
    "m_neq s = n" "map_option constraint_calls (m_ida_mem s) = Some []"
    by (simp_all add: constraint_view_def)
  show ?thesis
  proof (cases "nConstraints f \<noteq> 0")
    case False
    with assms s show ?thesis by (simp add: init_constraints_def)
  next
    case True
    let ?v = "map (\<lambda>i. Some (real_of_int (constraint f i))) [0..<n]"
    have v: "store_cells (\<lambda>i. Some (real_of_int (constraint f i))) n (replicate n (Some 0)) = ?v"
      by (simp add: store_cells_all)
    have "s' = engine_call (IDASetConstraints (Some ?v)) (s\<lparr>m_constraints := Some ?v\<rparr>)"
      using assms(2) True s v
      by (simp add: init_constraints_def Let_def throw_unless_def split: if_splits)
    moreover have "constraint_view (engine_call (IDASetConstraints (Some ?v))
                      (s\<lparr>m_constraints := Some ?v\<rparr>)) = (Some ?v, f, n, Some [Some ?v])"
      using s
      by (cases "m_ida_mem s")
         (simp_all add: constraint_view_def engine_call_def constraint_calls_append)
    ultimately show ?thesis using True by simp
  qed
qed


lemma init_vectors_forgets:
  "init_vectors t0 (s\<lparr>m_constraints := c\<rparr>) = init_vectors t0 s"
  "init_vectors t0 (s\<lparr>m_ida_mem := m\<rparr>) = init_vectors t0 s"
  by (simp_all add: init_vectors_def Let_def split: prod.splits)

lemma init_begin_forgets:
  "init_begin t0 r (s\<lparr>m_constraints := c\<rparr>) = init_begin t0 r s"
  "init_begin t0 r (s\<lparr>m_ida_mem := m\<rparr>) = init_begin t0 r s"
  by (simp_all add: init_begin_def init_vectors_forgets)

lemma init_forgets:
  "init (s\<lparr>m_constraints := c\<rparr>) t0 r = init s t0 r"
  "init (s\<lparr>m_ida_mem := m\<rparr>) t0 r = init s t0 r"
  by (simp_all add: init_def init_begin_forgets)

lemma init_after_setConstraints:
  "init (snd (setConstraints s cf ret)) t0 r = init s t0 r"
proof -
  obtain res v where loop:
    "setConstraints_loop cf [0..<m_neq s]
       (case m_constraints s of None \<Rightarrow> N_VNew_Serial (m_neq s) | Some v \<Rightarrow> v) = (res, v)"
    by (cases "setConstraints_loop cf [0..<m_neq s]
       (case m_constraints s of None \<Rightarrow> N_VNew_Serial (m_neq s) | Some v \<Rightarrow> v)")
  have "snd (setConstraints s cf ret) = s\<lparr>m_constraints := Some v\<rparr>
        \<or> snd (setConstraints s cf ret) =
            engine_call (IDASetConstraints (Some v)) (s\<lparr>m_constraints := Some v\<rparr>)"
    using loop
    by (cases res; cases "m_ida_mem s")
       (simp_all add: setConstraints_def Let_def snd_throw_unless)
  then show ?thesis
    by (auto simp: engine_call_def init_forgets)
qed

lemma init_constraint_view:
  assumes "init s t0 r = (Inr u, s')"
  shows "constraint_view s' =
           (if nConstraints (m_resid s) \<noteq> 0
            then (Some (map (\<lambda>i. Some (real_of_int (constraint (m_resid s) i))) [0..<m_neq s]),
                  m_resid s, m_neq s,
                  Some [Some (map (\<lambda>i. Some (real_of_int (constraint (m_resid s) i)))
                                [0..<m_neq s])])
            else (Some (replicate (m_neq s) (Some 0)), m_resid s, m_neq s, Some []))"
proof -
  from assms obtain s1 where s1: "init_begin t0 r s = (Inr (), s1)"
    and rest1: "run_steps [init_tolerances r, init_linear_solver r, init_jacobian r,
        init_user_data r, init_sensitivity t0 r, init_options r,
        init_constraints r, init_quadrature r] s1 = (Inr u, s')"
    unfolding init_def by (rule run_steps_Cons_ok)
  from rest1 obtain s2 where s2: "init_tolerances r s1 = (Inr (), s2)"
    and rest2: "run_steps [init_linear_solver r, init_jacobian r,
        init_user_data r, init_sensitivity t0 r, init_options r,
        init_constraints r, init_quadrature r] s2 = (Inr u, s')"
    by (rule run_steps_Cons_ok)
  from rest2 obtain s3 where s3: "init_linear_solver r s2 = (Inr (), s3)"
    and rest3: "run_steps [init_jacobian r,
        init_user_data r, init_sensitivity t0 r, init_options r,
        init_constraints r, init_quadrature r] s3 = (Inr u, s')"
    by (rule run_steps_Cons_ok)
  from rest3 obtain s4 where s4: "init_jacobian r s3 = (Inr (), s4)"
    and rest4: "run_steps [init_user_data r, init_sensitivity t0 r, init_options r,
        init_constraints r, init_quadrature r] s4 = (Inr u, s')"
    by (rule run_steps_Cons_ok)
  from rest4 obtain s5 where s5: "init_user_data r s4 = (Inr (), s5)"
    and rest5: "run_steps [init_sensitivity t0 r, init_options r,
        init_constraints r, init_quadrature r] s5 = (Inr u, s')"
    by (rule run_steps_Cons_ok)
  from rest5 obtain s6 where s6: "init_sensitivity t0 r s5 = (Inr (), s6)"
    and rest6: "run_steps [init_options r, init_constraints r, init_quadrature r] s6
                  = (Inr u, s')"
    by (rule run_steps_Cons_ok)
  from rest6 obtain s7 where s7: "init_options r s6 = (Inr (), s7)"
    and rest7: "run_steps [init_constraints r, init_quadrature r] s7 = (Inr u, s')"
    by (rule run_steps_Cons_ok)
  from rest7 obtain s8 where s8: "init_constraints r s7 = (Inr (), s8)"
    and rest8: "run_steps [init_quadrature r] s8 = (Inr u, s')"
    by (rule run_steps_Cons_ok)
  from rest8 obtain s9 where s9: "init_quadrature r s8 = (Inr (), s9)"
    and rest9: "run_steps [] s9 = (Inr u, s')"
    by (rule run_steps_Cons_ok)
  have v1: "constraint_view s1 =
              (Some (replicate (m_neq s) (Some 0)), m_resid s, m_neq s, Some [])"
    using view_init_begin [of t0 r s] s1 by simp
  have "constraint_view s2 = constraint_view s1"
    using view_init_tolerances [of r s1] s2 by simp
  moreover have "constraint_view s3 = constraint_view s2"
    using view_init_linear_solver [of r s2] s3 by simp
  moreover have "constraint_view s4 = constraint_view s3"
    using view_init_jacobian [of r s3] s4 by simp
  moreover have "constraint_view s5 = constraint_view s4"
    using view_init_user_data [of r s4] s5 by simp
  moreover have "constraint_view s6 = constraint_view s5"
    using view_init_sensitivity [of t0 r s5] s6 by simp
  moreover have "constraint_view s7 = constraint_view s6"
    using view_init_options [of r s6] s7 by simp
  ultimately have v7: "constraint_view s7 =
              (Some (replicate (m_neq s) (Some 0)), m_resid s, m_neq s, Some [])"
    using v1 by simp
  have v9: "constraint_view s' = constraint_view s8"
    using view_init_quadrature [of r s8] s9 rest9 by simp
  show ?thesis
    unfolding v9 by (rule view_init_constraints [OF v7 s8])
qed


text \<open>
  C3 (as stated): a constraint vector installed through the setter before \<open>init\<close> is
  registered with the engine again by \<open>init\<close>. With a provider that reports no
  constraints, the tags \<open>[1, 0]\<close> (\<open>\<ge> 0\<close>, none) installed before \<open>init\<close> are gone after
  it: the stored vector is \<open>[0, 0]\<close> and the new engine instance has been given no
  constraint vector.
\<close>

theorem C3_counterexample:
  "m_constraints (snd (setConstraints fresh_solver (array_of [1, 0]) 0))
     = Some [Some 1, Some 0]
   \<and> fst (init (snd (setConstraints fresh_solver (array_of [1, 0]) 0)) 0 all_accepted) = Inr ()
   \<and> m_constraints (snd (init (snd (setConstraints fresh_solver (array_of [1, 0]) 0)) 0
                           all_accepted))
       = Some [Some 0, Some 0]
   \<and> engine_constraints (snd (init (snd (setConstraints fresh_solver (array_of [1, 0]) 0)) 0
                                all_accepted))
       = []"
  by code_simp

text \<open>
  C3 (amended): \<open>init\<close> discards a constraint vector installed through the setter
  before it: it returns the same outcome and leaves the same state as if the setter
  had not been called. When \<open>init\<close> completes, the stored vector holds the provider's
  tags and exactly that vector has been registered with the new engine instance if
  the provider reports constraints; otherwise the stored vector is all zero and no
  constraint vector has been registered.
\<close>

theorem C3_init_discards_constraints:
  "init (snd (setConstraints s cf ret)) t0 r = init s t0 r
   \<and> (init (snd (setConstraints s cf ret)) t0 r = (Inr (), s') \<longrightarrow>
        m_constraints s' =
          Some (if nConstraints (m_resid s) \<noteq> 0
                then map (\<lambda>i. Some (real_of_int (constraint (m_resid s) i))) [0..<m_neq s]
                else replicate (m_neq s) (Some 0))
        \<and> engine_constraints s' =
            (if nConstraints (m_resid s) \<noteq> 0 then [m_constraints s'] else []))"
proof (intro conjI impI)
  show "init (snd (setConstraints s cf ret)) t0 r = init s t0 r"
    by (rule init_after_setConstraints)
next
  assume "init (snd (setConstraints s cf ret)) t0 r = (Inr (), s')"
  then have ok: "init s t0 r = (Inr (), s')"
    by (simp add: init_after_setConstraints)
  note v = init_constraint_view [OF ok]
  show "m_constraints s' =
          Some (if nConstraints (m_resid s) \<noteq> 0
                then map (\<lambda>i. Some (real_of_int (constraint (m_resid s) i))) [0..<m_neq s]
                else replicate (m_neq s) (Some 0))"
    using v by (simp add: constraint_view_def split: if_splits)
  show "engine_constraints s' =
            (if nConstraints (m_resid s) \<noteq> 0 then [m_constraints s'] else [])"
    using v by (auto simp: constraint_view_def engine_constraints_def split: if_splits)
qed

theorem C3_init_discards_constraints_witness:
  "m_constraints (snd (setConstraints constrained_solver (array_of [1, 0]) 0))
     = Some [Some 1, Some 0]
   \<and> fst (init (snd (setConstraints constrained_solver (array_of [1, 0]) 0)) 0 all_accepted)
       = Inr ()
   \<and> m_constraints (snd (init (snd (setConstraints constrained_solver (array_of [1, 0]) 0)) 0
                           all_accepted))
       = Some [Some 2, Some 0]
   \<and> engine_constraints (snd (init (snd (setConstraints constrained_solver (array_of [1, 0]) 0))
                                0 all_accepted))
       = [Some [Some 2, Some 0]]"
proof -
  let ?s = "snd (setConstraints constrained_solver (array_of [1, 0]) 0)"
  have set: "m_constraints ?s = Some [Some 1, Some 0]" by code_simp
  have ok: "fst (init ?s 0 all_accepted) = Inr ()" by code_simp
  then have h: "init ?s 0 all_accepted = (Inr (), snd (init ?s 0 all_accepted))"
    by (simp add: prod_eq_iff)
  have e: "(if nConstraints (m_resid constrained_solver) \<noteq> 0
            then map (\<lambda>i. Some (real_of_int (constraint (m_resid constrained_solver) i)))
                   [0..<m_neq constrained_solver]
            else replicate (m_neq constrained_solver) (Some 0)) = [Some 2, Some 0]"
    by code_simp
  have n: "nConstraints (m_resid constrained_solver) \<noteq> 0" by code_simp
  let ?t = "snd (init ?s 0 all_accepted)"
  from C3_init_discards_constraints
         [of constrained_solver "array_of [1, 0]" 0 0 all_accepted ?t] h
  have A: "m_constraints ?t =
             Some (if nConstraints (m_resid constrained_solver) \<noteq> 0
                   then map (\<lambda>i. Some (real_of_int (constraint (m_resid constrained_solver) i)))
                          [0..<m_neq constrained_solver]
                   else replicate (m_neq constrained_solver) (Some 0))"
    and B: "engine_constraints ?t =
              (if nConstraints (m_resid constrained_solver) \<noteq> 0 then [m_constraints ?t]
               else [])"
    by blast+
  from A have A': "m_constraints ?t = Some [Some 2, Some 0]"
    unfolding e .
  from B n A' have B': "engine_constraints ?t = [Some [Some 2, Some 0]]"
    by simp
  from set ok A' B' show ?thesis by blast
qed

subsection \<open>C2: which fetch \<open>sensitivity\<close> performs\<close>

text \<open>
  C2: with a stale cache and at least one sensitivity parameter, \<open>sensitivity\<close>
  performs the consistent-initial-condition fetch if and only if the current time
  equals the start time, and the post-step fetch otherwise, and then marks the cache
  current. The code evaluated at two inputs: right after \<open>init\<close> at start time 0 the
  current time equals the start time and the post-step fetch \<open>IDAGetSens\<close> is made;
  after \<open>init\<close> at start time 1 and a step to time 2 the current time differs from the
  start time and the consistent-initial-condition fetch is made. The cache is marked
  current in both.
\<close>

theorem C2_fetch_ignores_current_time:
  "m_tcurrent solver_at_0 = m_t0 solver_at_0
   \<and> \<not> m_sens_ok solver_at_0 \<and> m_ns solver_at_0 \<noteq> 0
   \<and> fetch_calls (snd (sensitivity solver_at_0 0 0 (fetched 0 0))) = [IDAGetSens]
   \<and> m_tcurrent solver_stepped \<noteq> m_t0 solver_stepped
   \<and> \<not> m_sens_ok solver_stepped \<and> m_ns solver_stepped \<noteq> 0
   \<and> fetch_calls (snd (sensitivity solver_stepped 0 0 (fetched 0 2)))
       = [IDAGetSensConsistentIC]
   \<and> m_sens_ok (snd (sensitivity solver_at_0 0 0 (fetched 0 0)))
   \<and> m_sens_ok (snd (sensitivity solver_stepped 0 0 (fetched 0 2)))"
  by code_simp

subsection \<open>C5: the time bookkeeping under \<open>sensitivity\<close>\<close>

text \<open>
  C5: operations other than those of the stepping controller leave the time
  bookkeeping unchanged; in particular \<open>sensitivity\<close> does not modify the current time.
  The code evaluated after \<open>init\<close> at start time 1 and a step to time 2: the call
  \<open>sensitivity(0, 0)\<close> returns normally and leaves the current time at 1.
\<close>

theorem C5_sensitivity_resets_current_time:
  "m_t0 solver_stepped = 1 \<and> m_tcurrent solver_stepped = 2
   \<and> fst (sensitivity solver_stepped 0 0 (fetched 0 2)) = Inr 0
   \<and> m_tcurrent (snd (sensitivity solver_stepped 0 0 (fetched 0 2))) = 1"
  by code_simp

subsection \<open>C10: \<open>sensitivity\<close> with an index out of range\<close>





subsection \<open>C6: \<open>step\<close> and its precondition\<close>

lemma m_tcurrent_engine_call [simp]: "m_tcurrent (engine_call c s) = m_tcurrent s"
  by (simp add: engine_call_def)

text \<open>
  C6 (as stated): \<open>step(tout)\<close> with \<open>tout \<le> m_tcurrent\<close> raises the precondition error
  at once, and with \<open>tout > m_tcurrent\<close> it returns the new current time reached by one
  engine step. After \<open>init\<close> at time 1, \<open>step(3)\<close> raises an error when the engine's
  advance hands back a negative status, and also when it hands back the warning
  status together with the time 2 it reached.
\<close>

theorem C6_counterexample:
  "m_tcurrent solver_at_1 < 3
   \<and> fst (step solver_at_1 3 (advance_to (- 1) 2)) =
       Inl (CanteraError ''IDA_Solver::step'' ''IDA error encountered.'')
   \<and> fst (step solver_at_1 3 (advance_to IDA_WARNING 2)) =
       Inl (CanteraError ''IDA_Solver::step'' ''IDA Warning encountered.'')"
  by code_simp

text \<open>
  C6 (amended): \<open>step(tout)\<close> with \<open>tout \<le> m_tcurrent\<close>, equality included, raises the
  precondition error at once: the state is untouched, so the engine has not been
  called, and the outcome is an error, not a silent return. With \<open>tout > m_tcurrent\<close>
  the engine's advance is called exactly once, in one-step mode; \<open>step\<close> returns the
  time that call reached, which is then the current time, when the engine's status is
  neither negative nor the warning; on a negative status and on the warning it raises
  an engine error and leaves the current time as it was.
\<close>

theorem C6_step:
  "(tout \<le> m_tcurrent s \<longrightarrow>
      step s tout r = (Inl (CanteraError ''IDA_Solver::step'' ''tout <= tcurrent''), s))
   \<and> (m_tcurrent s < tout \<longrightarrow>
        m_ida_mem (snd (step s tout r)) =
          map_option (\<lambda>calls. calls @ [IDASolve tout IDA_ONE_STEP]) (m_ida_mem s)
        \<and> (0 \<le> sol_flag r \<and> sol_flag r \<noteq> IDA_WARNING \<longrightarrow>
             fst (step s tout r) = Inr (sol_t r)
             \<and> m_tcurrent (snd (step s tout r)) = sol_t r)
        \<and> (sol_flag r < 0 \<longrightarrow>
             fst (step s tout r) =
               Inl (CanteraError ''IDA_Solver::step'' ''IDA error encountered.'')
             \<and> m_tcurrent (snd (step s tout r)) = m_tcurrent s)
        \<and> (sol_flag r = IDA_WARNING \<longrightarrow>
             fst (step s tout r) =
               Inl (CanteraError ''IDA_Solver::step'' ''IDA Warning encountered.'')
             \<and> m_tcurrent (snd (step s tout r)) = m_tcurrent s))"
  by (simp add: step_def Let_def IDASolve_call_def engine_call_def IDA_WARNING_def)

theorem C6_step_witness:
  "(0::real) \<le> m_tcurrent solver_at_0
   \<and> step solver_at_0 0 (advance_to 0 1) =
       (Inl (CanteraError ''IDA_Solver::step'' ''tout <= tcurrent''), solver_at_0)
   \<and> m_tcurrent solver_at_0 < 1
   \<and> fst (step solver_at_0 1 (advance_to 0 (1 / 2))) = Inr (1 / 2)
   \<and> m_tcurrent (snd (step solver_at_0 1 (advance_to 0 (1 / 2)))) = 1 / 2
   \<and> fst (step solver_at_0 1 (advance_to (- 4) (1 / 2))) =
       Inl (CanteraError ''IDA_Solver::step'' ''IDA error encountered.'')
   \<and> m_tcurrent (snd (step solver_at_0 1 (advance_to (- 4) (1 / 2)))) = m_tcurrent solver_at_0"
proof -
  have h1: "(0::real) \<le> m_tcurrent solver_at_0" by code_simp
  have h2: "m_tcurrent solver_at_0 < 1" by code_simp
  have f: "sol_flag (advance_to 0 (1 / 2)) = 0" "sol_t (advance_to 0 (1 / 2)) = 1 / 2"
    "sol_flag (advance_to (- 4) (1 / 2)) = - 4"
    by (simp_all add: advance_to_def)
  from C6_step [of 0 solver_at_0 "advance_to 0 1"] h1
  have A: "step solver_at_0 0 (advance_to 0 1) =
       (Inl (CanteraError ''IDA_Solver::step'' ''tout <= tcurrent''), solver_at_0)"
    by blast
  from C6_step [of 1 solver_at_0 "advance_to 0 (1 / 2)"] h2 f
  have B: "fst (step solver_at_0 1 (advance_to 0 (1 / 2))) = Inr (1 / 2)
           \<and> m_tcurrent (snd (step solver_at_0 1 (advance_to 0 (1 / 2)))) = 1 / 2"
    by (simp add: IDA_WARNING_def)
  from C6_step [of 1 solver_at_0 "advance_to (- 4) (1 / 2)"] h2 f
  have C: "fst (step solver_at_0 1 (advance_to (- 4) (1 / 2))) =
       Inl (CanteraError ''IDA_Solver::step'' ''IDA error encountered.'')
     \<and> m_tcurrent (snd (step solver_at_0 1 (advance_to (- 4) (1 / 2)))) = m_tcurrent solver_at_0"
    by simp
  from h1 h2 A B C show ?thesis by blast
qed

subsection \<open>C7: \<open>solve\<close> with a target that is already reached\<close>

lemma advance_calls_other:
  "(case c of IDASolve _ _ \<Rightarrow> False | _ \<Rightarrow> True) \<Longrightarrow>
   advance_calls (engine_call c s) = advance_calls s"
  by (cases "m_ida_mem s"; cases c) (simp_all add: advance_calls_def engine_call_def)

lemma advance_calls_sens_ok [simp]:
  "advance_calls (s\<lparr>m_sens_ok := b\<rparr>) = advance_calls s"
  by (simp add: advance_calls_def)

lemma solve_exit_time:
  "solve_exit s flag out = (Inr f, s', out') \<Longrightarrow> m_tcurrent s' = m_tcurrent s"
  by (auto simp: solve_exit_def split: if_splits)

lemma solve_loop_reaches:
  "solve_loop s tout tretn flag out rs = Some (Inr f, s', out') \<Longrightarrow>
   tretn < tout \<or> m_tcurrent s = tretn \<Longrightarrow> tout \<le> m_tcurrent s'"
proof (induction rs arbitrary: s tretn flag out)
  case Nil
  then show ?case
    by (subst (asm) solve_loop.simps) (auto split: if_splits dest: solve_exit_time)
next
  case (Cons r rs)
  show ?case
  proof (cases "tretn < tout \<and> \<not> tout \<le> m_tcurrent s")
    case False
    with Cons.prems show ?thesis
      by (subst (asm) solve_loop.simps) (auto split: if_splits dest: solve_exit_time)
  next
    case True
    let ?s2 = "IDASolve_call tout IDA_NORMAL r (s\<lparr>m_told_old := m_told s, m_told := m_tcurrent s\<rparr>)"
    let ?s3 = "?s2\<lparr>m_tcurrent := sol_t r, m_deltat := sol_t r - m_told ?s2\<rparr>"
    from Cons.prems(1) True
    have "solve_loop ?s3 tout (sol_t r) (sol_flag r)
            (if sol_flag r = IDA_WARNING then out @ [''DAE Solver WARNING!''] else out) rs
          = Some (Inr f, s', out')"
      by (subst (asm) solve_loop.simps) (simp add: Let_def split: if_splits)
    moreover have "m_tcurrent ?s3 = sol_t r" by simp
    ultimately show ?thesis using Cons.IH by blast
  qed
qed

text \<open>
  C7 (as stated): entered with \<open>tout \<le> m_tcurrent\<close>, \<open>solve\<close> raises no error and returns
  success. \<open>solve\<close> first hands \<open>tout\<close> to the engine as the stop time and throws when
  the engine rejects it; right after \<open>init\<close> at time 0, \<open>solve(0)\<close> with an engine that
  answers \<open>IDA_ILL_INPUT\<close> raises an error.
\<close>

theorem C7_counterexample:
  "(0::real) \<le> m_tcurrent solver_at_0
   \<and> map_option fst (solve solver_at_0 0 False IDA_ILL_INPUT []) =
       Some (Inl (CanteraError ''IDA_Solver::solve'' ''IDA error encountered.''))"
  by code_simp

lemma solve_already_reached:
  assumes "tout \<le> m_tcurrent s"
  shows "solve s tout absorbed stop_ret rs =
           Some (if stop_ret = IDA_SUCCESS
                 then (Inr IDA_SUCCESS,
                       (engine_call (IDASetStopTime tout) s)\<lparr>m_sens_ok := False\<rparr>,
                       if absorbed then [] else [''Simulation end time reached''])
                 else (Inl (CanteraError ''IDA_Solver::solve'' ''IDA error encountered.''),
                       engine_call (IDASetStopTime tout) s, []))"
  using assms
  by (simp add: solve_def Let_def solve_loop.simps solve_exit_def)

lemma solve_absorbed:
  "solve s tout True IDA_SUCCESS rs =
     Some (Inr IDA_SUCCESS, (engine_call (IDASetStopTime tout) s)\<lparr>m_sens_ok := False\<rparr>, [])"
  by (simp add: solve_def Let_def solve_loop.simps solve_exit_def)

text \<open>
  C7 (amended): entered with \<open>tout \<le> m_tcurrent\<close>, \<open>solve\<close> registers \<open>tout\<close> as the
  stop time and makes no advance call; if the engine accepts the stop time it marks
  the sensitivity cache stale and returns the success status (having written the line
  ``Simulation end time reached'' when it entered the loop), and otherwise it raises
  an engine error. After a call of \<open>solve\<close> that returned normally, a second call with
  the same target whose stop time the engine accepts makes no advance call and returns
  success.
\<close>

theorem C7_solve_already_reached:
  "(tout \<le> m_tcurrent s \<longrightarrow>
      solve s tout absorbed stop_ret rs =
        Some (if stop_ret = IDA_SUCCESS
              then (Inr IDA_SUCCESS,
                    (engine_call (IDASetStopTime tout) s)\<lparr>m_sens_ok := False\<rparr>,
                    if absorbed then [] else [''Simulation end time reached''])
              else (Inl (CanteraError ''IDA_Solver::solve'' ''IDA error encountered.''),
                    engine_call (IDASetStopTime tout) s, []))
      \<and> advance_calls (engine_call (IDASetStopTime tout) s) = advance_calls s)
   \<and> (solve s tout absorbed stop_ret rs = Some (Inr flag, s', out) \<longrightarrow>
        solve s' tout absorbed IDA_SUCCESS rs' =
          Some (Inr IDA_SUCCESS, (engine_call (IDASetStopTime tout) s')\<lparr>m_sens_ok := False\<rparr>,
                if absorbed then [] else [''Simulation end time reached''])
        \<and> advance_calls ((engine_call (IDASetStopTime tout) s')\<lparr>m_sens_ok := False\<rparr>)
            = advance_calls s')"
proof (intro conjI impI)
  assume "tout \<le> m_tcurrent s"
  then show "solve s tout absorbed stop_ret rs =
        Some (if stop_ret = IDA_SUCCESS
              then (Inr IDA_SUCCESS,
                    (engine_call (IDASetStopTime tout) s)\<lparr>m_sens_ok := False\<rparr>,
                    if absorbed then [] else [''Simulation end time reached''])
              else (Inl (CanteraError ''IDA_Solver::solve'' ''IDA error encountered.''),
                    engine_call (IDASetStopTime tout) s, []))"
    by (rule solve_already_reached)
next
  show "advance_calls (engine_call (IDASetStopTime tout) s) = advance_calls s"
    by (simp add: advance_calls_other)
next
  assume ok: "solve s tout absorbed stop_ret rs = Some (Inr flag, s', out)"
  show "solve s' tout absorbed IDA_SUCCESS rs' =
          Some (Inr IDA_SUCCESS, (engine_call (IDASetStopTime tout) s')\<lparr>m_sens_ok := False\<rparr>,
                if absorbed then [] else [''Simulation end time reached''])"
  proof (cases absorbed)
    case True
    then show ?thesis by (simp add: solve_absorbed)
  next
    case False
    with ok have "solve_loop (engine_call (IDASetStopTime tout) s) tout (tout - 1000) stop_ret
                    [] rs = Some (Inr flag, s', out)"
      by (simp add: solve_def Let_def split: if_splits)
    then have "tout \<le> m_tcurrent s'"
      by (rule solve_loop_reaches) simp
    with False show ?thesis
      by (simp add: solve_already_reached)
  qed
next
  show "advance_calls ((engine_call (IDASetStopTime tout) s')\<lparr>m_sens_ok := False\<rparr>)
            = advance_calls s'"
    by (simp add: advance_calls_other)
qed

theorem C7_solve_already_reached_witness:
  "(0::real) \<le> m_tcurrent solver_at_0
   \<and> map_option fst (solve solver_at_0 0 False IDA_SUCCESS []) = Some (Inr IDA_SUCCESS)
   \<and> map_option fst (solve solver_at_0 1 False IDA_SUCCESS [advance_to IDA_TSTOP_RETURN 1])
       = Some (Inr IDA_TSTOP_RETURN)
   \<and> map_option fst
        (solve (fst (snd (the (solve solver_at_0 1 False IDA_SUCCESS
                                 [advance_to IDA_TSTOP_RETURN 1]))))
           1 False IDA_SUCCESS [])
       = Some (Inr IDA_SUCCESS)"
proof -
  let ?first = "solve solver_at_0 1 False IDA_SUCCESS [advance_to IDA_TSTOP_RETURN 1]"
  have h1: "(0::real) \<le> m_tcurrent solver_at_0" by code_simp
  from C7_solve_already_reached [of 0 solver_at_0 False IDA_SUCCESS "[]"] h1
  have A: "map_option fst (solve solver_at_0 0 False IDA_SUCCESS []) = Some (Inr IDA_SUCCESS)"
    by simp
  have B: "map_option fst ?first = Some (Inr IDA_TSTOP_RETURN)" by code_simp
  then have h2: "?first = Some (Inr IDA_TSTOP_RETURN, fst (snd (the ?first)), snd (snd (the ?first)))"
    by (cases ?first) auto
  from C7_solve_already_reached
         [of 1 solver_at_0 False IDA_SUCCESS "[advance_to IDA_TSTOP_RETURN 1]" IDA_TSTOP_RETURN
             "fst (snd (the ?first))" "snd (snd (the ?first))" "[]"] h2
  have C: "map_option fst (solve (fst (snd (the ?first))) 1 False IDA_SUCCESS [])
             = Some (Inr IDA_SUCCESS)"
    by simp
  from h1 A B C show ?thesis by blast
qed


subsection \<open>C8: tolerances that are not positive\<close>

text \<open>
  C8 (as stated): either overload of \<open>setTolerances\<close> fails when a tolerance is not
  positive, also before \<open>init\<close>. On a freshly constructed solver the scalar overload
  with relative tolerance \<open>-1\<close> and absolute tolerance 0, and the per-component overload
  with relative tolerance 0 and absolute tolerances \<open>-1\<close>, both return normally and
  record the values.
\<close>

theorem C8_counterexample:
  "m_ida_mem fresh_solver = None
   \<and> fst (setTolerances fresh_solver (- 1) 0 0) = Inr ()
   \<and> m_reltol (snd (setTolerances fresh_solver (- 1) 0 0)) = - 1
   \<and> m_abstols (snd (setTolerances fresh_solver (- 1) 0 0)) = 0
   \<and> fst (setTolerances_vec fresh_solver 0 negative_tolerances 0) = Inr ()
   \<and> m_reltol (snd (setTolerances_vec fresh_solver 0 negative_tolerances 0)) = 0
   \<and> m_abstol (snd (setTolerances_vec fresh_solver 0 negative_tolerances 0))
       = Some [- 1, - 1]"
  by code_simp

text \<open>
  C8 (amended): neither overload of \<open>setTolerances\<close> inspects the values. Each records
  the mode and the tolerances as given, whatever their sign, the per-component
  overload in every one of the \<open>m_neq\<close> cells of \<open>m_abstol\<close>. Without an engine instance
  (before \<open>init\<close>) the call returns normally and nothing else changes; with an engine
  instance the recorded values are passed to the engine in one call, and the setter
  fails exactly when the engine returns a status other than success, the values
  staying recorded.
\<close>

theorem C8_setTolerances_unchecked:
  "setTolerances s reltol abstol ret =
     (case m_ida_mem s of
        None \<Rightarrow> (Inr (), s\<lparr>m_itol := IDA_SS, m_reltol := reltol, m_abstols := abstol\<rparr>)
      | Some calls \<Rightarrow>
          (if ret = IDA_SUCCESS then Inr ()
           else Inl (CanteraError ''IDA_Solver::setTolerances''
                       ''Call to IDASStolerances failed.''),
           s\<lparr>m_itol := IDA_SS, m_reltol := reltol, m_abstols := abstol,
             m_ida_mem := Some (calls @ [IDASStolerances reltol abstol])\<rparr>))
   \<and> ((case m_abstol s of None \<Rightarrow> True | Some v \<Rightarrow> length v = m_neq s) \<longrightarrow>
        setTolerances_vec s reltol av ret =
          (case m_ida_mem s of
             None \<Rightarrow>
               (Inr (),
                s\<lparr>m_itol := IDA_SV, m_abstol := Some (map av [0..<m_neq s]),
                  m_reltol := reltol\<rparr>)
           | Some calls \<Rightarrow>
               (if ret = IDA_SUCCESS then Inr ()
                else Inl (CanteraError ''IDA_Solver::setTolerances''
                            ''Memory allocation failed.''),
                s\<lparr>m_itol := IDA_SV, m_abstol := Some (map av [0..<m_neq s]),
                  m_reltol := reltol,
                  m_ida_mem :=
                    Some (calls @ [IDASVtolerances reltol (Some (map av [0..<m_neq s]))])\<rparr>)))"
proof (intro conjI impI)
  show "setTolerances s reltol abstol ret =
     (case m_ida_mem s of
        None \<Rightarrow> (Inr (), s\<lparr>m_itol := IDA_SS, m_reltol := reltol, m_abstols := abstol\<rparr>)
      | Some calls \<Rightarrow>
          (if ret = IDA_SUCCESS then Inr ()
           else Inl (CanteraError ''IDA_Solver::setTolerances''
                       ''Call to IDASStolerances failed.''),
           s\<lparr>m_itol := IDA_SS, m_reltol := reltol, m_abstols := abstol,
             m_ida_mem := Some (calls @ [IDASStolerances reltol abstol])\<rparr>))"
    by (cases "m_ida_mem s")
       (simp_all add: setTolerances_def Let_def throw_unless_def engine_call_def)
next
  assume len: "case m_abstol s of None \<Rightarrow> True | Some v \<Rightarrow> length v = m_neq s"
  then have cells:
    "store_cells av (m_neq s)
       (case m_abstol s of None \<Rightarrow> replicate (m_neq s) 0 | Some v \<Rightarrow> v) = map av [0..<m_neq s]"
    by (cases "m_abstol s") (simp_all add: store_cells_all)
  show "setTolerances_vec s reltol av ret =
          (case m_ida_mem s of
             None \<Rightarrow>
               (Inr (),
                s\<lparr>m_itol := IDA_SV, m_abstol := Some (map av [0..<m_neq s]),
                  m_reltol := reltol\<rparr>)
           | Some calls \<Rightarrow>
               (if ret = IDA_SUCCESS then Inr ()
                else Inl (CanteraError ''IDA_Solver::setTolerances''
                            ''Memory allocation failed.''),
                s\<lparr>m_itol := IDA_SV, m_abstol := Some (map av [0..<m_neq s]),
                  m_reltol := reltol,
                  m_ida_mem :=
                    Some (calls @ [IDASVtolerances reltol (Some (map av [0..<m_neq s]))])\<rparr>))"
    by (cases "m_ida_mem s")
       (simp_all add: setTolerances_vec_def Let_def throw_unless_def engine_call_def cells)
qed

theorem C8_setTolerances_unchecked_witness:
  "m_ida_mem fresh_solver = None
   \<and> fst (setTolerances fresh_solver (- 1) 0 0) = Inr ()
   \<and> m_ida_mem solver_at_0 \<noteq> None
   \<and> fst (setTolerances solver_at_0 (- 1) 0 0) = Inr ()
   \<and> fst (setTolerances solver_at_0 1 1 IDA_ILL_INPUT) =
       Inl (CanteraError ''IDA_Solver::setTolerances'' ''Call to IDASStolerances failed.'')
   \<and> m_abstol solver_with_abstol = Some [- 1, - 1]
   \<and> m_neq solver_with_abstol = 2
   \<and> m_abstol (snd (setTolerances_vec solver_with_abstol 0 zero_tolerances 0)) = Some [0, 0]
   \<and> map_option last (m_ida_mem (snd (setTolerances_vec solver_with_abstol 0 zero_tolerances 0)))
       = Some (IDASVtolerances 0 (Some [0, 0]))"
proof -
  have h1: "m_ida_mem fresh_solver = None" by code_simp
  have h2: "m_ida_mem solver_at_0 \<noteq> None" by code_simp
  have h3: "m_abstol solver_with_abstol = Some [- 1, - 1]" by code_simp
  have h4: "m_neq solver_with_abstol = 2" by code_simp
  have h5: "m_ida_mem solver_with_abstol \<noteq> None" by code_simp
  have cells: "map zero_tolerances [0..<2] = [0, 0]" by code_simp
  from C8_setTolerances_unchecked [of fresh_solver "- 1" 0 0 negative_tolerances] h1
  have A: "fst (setTolerances fresh_solver (- 1) 0 0) = Inr ()" by simp
  from h2 obtain calls where c: "m_ida_mem solver_at_0 = Some calls" by blast
  from C8_setTolerances_unchecked [of solver_at_0 "- 1" 0 0 negative_tolerances] c
  have B: "fst (setTolerances solver_at_0 (- 1) 0 0) = Inr ()"
    by (simp add: IDA_SUCCESS_def)
  from C8_setTolerances_unchecked [of solver_at_0 1 1 IDA_ILL_INPUT negative_tolerances] c
  have C: "fst (setTolerances solver_at_0 1 1 IDA_ILL_INPUT) =
       Inl (CanteraError ''IDA_Solver::setTolerances'' ''Call to IDASStolerances failed.'')"
    by (simp add: IDA_SUCCESS_def IDA_ILL_INPUT_def)
  from h5 obtain calls' where c': "m_ida_mem solver_with_abstol = Some calls'" by blast
  have len: "case m_abstol solver_with_abstol of None \<Rightarrow> True
             | Some v \<Rightarrow> length v = m_neq solver_with_abstol"
    by (simp add: h3 h4)
  from C8_setTolerances_unchecked [of solver_with_abstol 0 0 0 zero_tolerances] len
  have D: "setTolerances_vec solver_with_abstol 0 zero_tolerances 0 =
          (Inr (),
           solver_with_abstol\<lparr>m_itol := IDA_SV, m_abstol := Some [0, 0], m_reltol := 0,
             m_ida_mem := Some (calls' @ [IDASVtolerances 0 (Some [0, 0])])\<rparr>)"
    by (simp add: c' h4 cells IDA_SUCCESS_def)
  have E: "m_abstol (snd (setTolerances_vec solver_with_abstol 0 zero_tolerances 0))
             = Some [0, 0]"
    by (simp add: D)
  have F: "map_option last
             (m_ida_mem (snd (setTolerances_vec solver_with_abstol 0 zero_tolerances 0)))
           = Some (IDASVtolerances 0 (Some [0, 0]))"
    by (simp add: D)
  from h1 h2 h3 h4 A B C E F show ?thesis by blast
qed

subsection \<open>C9: the engine's warning status\<close>








end
